theory Spec2Isabelle
  imports Main
begin

section \<open>Python values and errors\<close>

text \<open>
  The learner of \<^verbatim>\<open>jade/learn.py\<close> works on dynamically typed Python values.
  A value is \<^verbatim>\<open>None\<close>, a scalar (anything that is neither a list, a tuple nor a
  numpy array and has no length), or a sequence (list, tuple or numpy array) of values.
\<close>

datatype 'a pyval = PyNone | Scalar 'a | Seq "'a pyval list"

datatype error =
    TypeError
  | IndexError
  | ValueError
  | NameError
  | AssertionError string
  | OtherError string

text \<open>\<^verbatim>\<open>isinstance(v, (list, tuple, numpy.ndarray))\<close>\<close>

fun is_sequence :: "'a pyval \<Rightarrow> bool" where
  "is_sequence (Seq xs) = True"
| "is_sequence v = False"

text \<open>\<^verbatim>\<open>len(v)\<close>: a TypeError on a value without length.\<close>

fun py_len :: "'a pyval \<Rightarrow> error + int" where
  "py_len (Seq xs) = Inr (int (length xs))"
| "py_len v = Inl TypeError"

text \<open>
  \<^verbatim>\<open>v[i:j]\<close> with Python's slice semantics (step 1): a negative bound counts from
  the end, every bound is clipped to the sequence, an empty range gives the empty
  sequence. A value that is no sequence cannot be sliced.
\<close>

definition slice_bound :: "int \<Rightarrow> int \<Rightarrow> int" where
  "slice_bound i n = (if i < 0 then max (i + n) 0 else min i n)"

definition slice_list :: "'b list \<Rightarrow> int \<Rightarrow> int \<Rightarrow> 'b list" where
  "slice_list xs i j =
     (let n = int (length xs); lo = slice_bound i n; hi = slice_bound j n
      in take (nat (hi - lo)) (drop (nat lo) xs))"

fun py_slice :: "'a pyval \<Rightarrow> int \<Rightarrow> int \<Rightarrow> error + 'a pyval" where
  "py_slice (Seq xs) i j = Inr (Seq (slice_list xs i j))"
| "py_slice v i j = Inl TypeError"

section \<open>numpy.array\<close>

text \<open>
  \<^verbatim>\<open>numpy.array(L)\<close> on a list \<open>L\<close> is a call into a library that is no part of
  \<^verbatim>\<open>learn.py\<close>. It either raises (children of mismatching shape) or returns an array
  that has, for each element of \<open>L\<close> and in the same order, the element as numpy
  stores it (a number converted to the common dtype, a list turned into an array).
  When it raises and what it stores are parameters: \<open>np_raises\<close> gives the exception
  for a list, \<open>np_stored L x\<close> what the array built from \<open>L\<close> holds for \<open>x\<close>.
\<close>

record 'a numpy =
  np_raises :: "'a pyval list \<Rightarrow> error option"
  np_stored :: "'a pyval list \<Rightarrow> 'a pyval \<Rightarrow> 'a pyval"

definition numpy_array :: "'a numpy \<Rightarrow> 'a pyval list \<Rightarrow> error + 'a pyval list" where
  "numpy_array np L =
     (case np_raises np L of
        Some e \<Rightarrow> Inl e
      | None \<Rightarrow> Inr (map (np_stored np L) L))"

section \<open>flatten\<close>

text \<open>
  \<^verbatim>\<open>flatten\<close> returns a 2-tuple \<^verbatim>\<open>([X], [Y])\<close> of lists from its \<^verbatim>\<open>else\<close> branch
  and a 3-tuple \<^verbatim>\<open>(numpy.array(fX), numpy.array(fY), fZ)\<close> otherwise. The first two
  components are sequences in both cases; they are kept as their element lists
  (for an array: what it holds along its first axis).
\<close>

datatype 'a flattened =
    Flat2 (flatX: "'a pyval list") (flatY: "'a pyval list")
  | Flat3 (flatX: "'a pyval list") (flatY: "'a pyval list") (flatZ: "int list")

text \<open>
  The loop \<^verbatim>\<open>for idx in range(0, len(X))\<close> reads \<^verbatim>\<open>X[idx]\<close> and \<^verbatim>\<open>Y[idx]\<close>;
  \<open>flatten_loop\<close> walks the remaining elements of both and returns the three
  accumulators. \<^verbatim>\<open>Y[idx]\<close> past the end of \<^verbatim>\<open>Y\<close> is an IndexError; \<^verbatim>\<open>len(X[idx])\<close>
  is evaluated after the recursive call. \<^verbatim>\<open>len(X)\<close> on a value without length is a
  TypeError. After the loop the two lists are converted, \<^verbatim>\<open>fX\<close> first.
\<close>

fun flatten :: "'a numpy \<Rightarrow> 'a pyval \<Rightarrow> 'a pyval \<Rightarrow> error + 'a flattened"
  and flatten_loop :: "'a numpy \<Rightarrow> 'a pyval list \<Rightarrow> 'a pyval list \<Rightarrow>
        'a pyval list \<Rightarrow> 'a pyval list \<Rightarrow> int list \<Rightarrow>
        error + ('a pyval list \<times> 'a pyval list \<times> int list)"
where
  "flatten np X (Seq ys) =
     (case X of
        Seq xs \<Rightarrow>
          (case flatten_loop np xs ys [] [] [] of
             Inl e \<Rightarrow> Inl e
           | Inr (fX, fY, fZ) \<Rightarrow>
               (case numpy_array np fX of
                  Inl e \<Rightarrow> Inl e
                | Inr aX \<Rightarrow>
                    (case numpy_array np fY of
                       Inl e \<Rightarrow> Inl e
                     | Inr aY \<Rightarrow> Inr (Flat3 aX aY fZ))))
      | _ \<Rightarrow> Inl TypeError)"
| "flatten np X PyNone = Inr (Flat2 [X] [PyNone])"
| "flatten np X (Scalar y) = Inr (Flat2 [X] [Scalar y])"
| "flatten_loop np [] ys fX fY fZ = Inr (fX, fY, fZ)"
| "flatten_loop np (x # xs) [] fX fY fZ = Inl IndexError"
| "flatten_loop np (x # xs) (y # ys) fX fY fZ =
     (case flatten np x y of
        Inl e \<Rightarrow> Inl e
      | Inr dat \<Rightarrow>
          (case py_len x of
             Inl e \<Rightarrow> Inl e
           | Inr n \<Rightarrow> flatten_loop np xs ys (fX @ flatX dat) (fY @ flatY dat) (fZ @ [n])))"

section \<open>inverse\_flatten\<close>

text \<open>
  Here \<^verbatim>\<open>numpy.array\<close> is applied to the list of the slices of \<open>X\<close> and to the list
  of the slices of \<open>Y\<close>. The slices of one array have its dtype and its trailing
  shape, so nothing is converted and no shapes mismatch, and the numpy that the module
  runs with (it imports \<^verbatim>\<open>sklearn.externals.joblib\<close>) builds an array of the
  slices also when their lengths differ. The result is the sequence of the slices.
\<close>

fun regroup_loop :: "'a pyval \<Rightarrow> 'a pyval \<Rightarrow> int list \<Rightarrow> int \<Rightarrow>
      'a pyval list \<Rightarrow> 'a pyval list \<Rightarrow> error + ('a pyval list \<times> 'a pyval list)" where
  "regroup_loop X Y [] cidx tX tY = Inr (tX, tY)"
| "regroup_loop X Y (z # Z) cidx tX tY =
     (case py_slice X cidx (cidx + z) of
        Inl e \<Rightarrow> Inl e
      | Inr sx \<Rightarrow>
          (case py_slice Y cidx (cidx + z) of
             Inl e \<Rightarrow> Inl e
           | Inr sy \<Rightarrow> regroup_loop X Y Z (cidx + z) (tX @ [sx]) (tY @ [sy])))"

definition inverse_flatten :: "'a pyval \<Rightarrow> 'a pyval \<Rightarrow> int list \<Rightarrow>
      error + ('a pyval \<times> 'a pyval)" where
  "inverse_flatten X Y Z =
     (case py_len Y of
        Inl e \<Rightarrow> Inl e
      | Inr n \<Rightarrow>
          if int (length Z) < n then
            (case regroup_loop X Y Z 0 [] [] of
               Inl e \<Rightarrow> Inl e
             | Inr (tX, tY) \<Rightarrow> Inr (Seq tX, Seq tY))
          else Inr (X, Y))"

section \<open>Loading a learner\<close>

text \<open>
  \<^verbatim>\<open>load\<close> reads the file system through \<^verbatim>\<open>os.path.exists\<close> and \<^verbatim>\<open>joblib.load\<close>,
  which are parameters. It also reads \<^verbatim>\<open>session.models\<close>: \<^verbatim>\<open>load\<close> declares
  \<^verbatim>\<open>global session\<close>, but \<^verbatim>\<open>learn.py\<close> neither imports nor assigns that name.
  \<open>session_models\<close> is \<open>None\<close> when the module global \<^verbatim>\<open>session\<close> is unbound, as it
  is unless other code binds it in the module, and evaluating \<^verbatim>\<open>session.models\<close> is
  then a NameError.
\<close>

record 'obj storage =
  path_exists :: "string \<Rightarrow> bool"
  joblib_load :: "string \<Rightarrow> error + 'obj"
  session_models :: "string option"

text \<open>\<^verbatim>\<open>os.path.join(a, b)\<close> on POSIX paths.\<close>

definition os_path_join :: "string \<Rightarrow> string \<Rightarrow> string" where
  "os_path_join a b =
     (if b \<noteq> [] \<and> hd b = CHR ''/'' then b
      else if a = [] \<or> last a = CHR ''/'' then a @ b
      else a @ ''/'' @ b)"

text \<open>\<^verbatim>\<open>from_config\<close> is a stub: it returns \<^verbatim>\<open>None\<close>.\<close>

definition from_config :: "string \<Rightarrow> error + 'obj option" where
  "from_config filename = Inr None"

definition load :: "'obj storage \<Rightarrow> string \<Rightarrow> error + 'obj option" where
  "load fs filename =
     (if path_exists fs filename then
        (case joblib_load fs filename of
           Inr obj \<Rightarrow> Inr (Some obj)
         | Inl e \<Rightarrow> from_config filename)
      else
        (case session_models fs of
           None \<Rightarrow> Inl NameError
         | Some models \<Rightarrow>
             if path_exists fs (os_path_join models (filename @ ''.pkl'')) then
               (case joblib_load fs (os_path_join models (filename @ ''.pkl'')) of
                  Inr obj \<Rightarrow> Inr (Some obj)
                | Inl e \<Rightarrow> Inl e)
             else if path_exists fs (os_path_join models (filename @ ''.yml'')) then
               from_config (os_path_join models (filename @ ''.yml''))
             else Inl (AssertionError ''Cannot load model. Pickle file does not exist!'')))"

section \<open>The learner and its collaborators\<close>

text \<open>
  The vectorizer (a \<^verbatim>\<open>CompositeTransform\<close>) and the model (a scikit-learn estimator)
  are objects of other modules. Their states are the abstract types \<open>'v\<close> and \<open>'m\<close>;
  their methods are parameters that take the object's state and return the outcome
  of the call with the object's new state. The keyword \<^verbatim>\<open>pred\<close> of
  \<^verbatim>\<open>fit_transform\<close> is \<open>None\<close> where the caller does not pass it.
  \<open>numpy_module\<close> is the numpy that \<^verbatim>\<open>flatten\<close> calls.
\<close>

record ('a, 'v, 'm) collaborators =
  numpy_module :: "'a numpy"
  vec_clone :: "'v \<Rightarrow> error + 'v"
  vec_fit_transform ::
    "'v \<Rightarrow> 'a pyval \<Rightarrow> 'a pyval \<Rightarrow> bool option \<Rightarrow> (error + 'a pyval \<times> 'a pyval) \<times> 'v"
  vec_inverse_fit_transform ::
    "'v \<Rightarrow> 'a pyval \<Rightarrow> 'a pyval \<Rightarrow> (error + 'a pyval \<times> 'a pyval) \<times> 'v"
  model_fit :: "'m \<Rightarrow> 'a pyval \<Rightarrow> 'a pyval \<Rightarrow> (error + unit) \<times> 'm"
  model_predict :: "'m \<Rightarrow> 'a pyval \<Rightarrow> (error + 'a pyval) \<times> 'm"

text \<open>
  The attributes of a \<^verbatim>\<open>Learner\<close>: \<^verbatim>\<open>_X\<close>, \<^verbatim>\<open>_Y\<close> and \<^verbatim>\<open>_Z\<close> start as
  \<^verbatim>\<open>None\<close> (the class attributes).
\<close>

record ('a, 'v, 'm) learner =
  self_vectorizer :: 'v
  self_model :: 'm
  self_X :: "'a pyval"
  self_Y :: "'a pyval"
  self_Z :: "int list option"

text \<open>Every call of a collaborator's method is recorded, in order, with its arguments.\<close>

datatype 'a call =
    VecClone
  | VecFitTransform "'a pyval" "'a pyval" "bool option"
  | VecInverseFitTransform "'a pyval" "'a pyval"
  | ModelFit "'a pyval" "'a pyval"
  | ModelPredict "'a pyval"

record ('a, 'v, 'm) run =
  self :: "('a, 'v, 'm) learner"
  calls :: "'a call list"

type_synonym ('s, 'r) action = "'s \<Rightarrow> (error + 'r) \<times> 's"

text \<open>Sequencing: an exception ends the method, keeping the state reached.\<close>

definition and_then :: "('s, 'r) action \<Rightarrow> ('r \<Rightarrow> ('s, 'q) action) \<Rightarrow> ('s, 'q) action" where
  "and_then m f s = (case m s of (Inl e, s') \<Rightarrow> (Inl e, s') | (Inr v, s') \<Rightarrow> f v s')"

definition return_val :: "'r \<Rightarrow> ('s, 'r) action" where
  "return_val v s = (Inr v, s)"

definition raise_error :: "error \<Rightarrow> ('s, 'r) action" where
  "raise_error e s = (Inl e, s)"

definition pure_step :: "error + 'r \<Rightarrow> ('s, 'r) action" where
  "pure_step r s = (r, s)"

text \<open>Calls on \<^verbatim>\<open>self.vectorizer\<close> and \<^verbatim>\<open>self.model\<close>.\<close>

definition self_vec_clone ::
  "('a, 'v, 'm) collaborators \<Rightarrow> (('a, 'v, 'm) run, 'v) action" where
  "self_vec_clone env s =
     (vec_clone env (self_vectorizer (self s)), s\<lparr>calls := calls s @ [VecClone]\<rparr>)"

definition self_vec_fit_transform ::
  "('a, 'v, 'm) collaborators \<Rightarrow> 'a pyval \<Rightarrow> 'a pyval \<Rightarrow> bool option \<Rightarrow>
     (('a, 'v, 'm) run, 'a pyval \<times> 'a pyval) action" where
  "self_vec_fit_transform env X Y pred s =
     (case vec_fit_transform env (self_vectorizer (self s)) X Y pred of
        (r, v') \<Rightarrow>
          (r, s\<lparr>self := (self s)\<lparr>self_vectorizer := v'\<rparr>,
                 calls := calls s @ [VecFitTransform X Y pred]\<rparr>))"

definition self_vec_inverse_fit_transform ::
  "('a, 'v, 'm) collaborators \<Rightarrow> 'a pyval \<Rightarrow> 'a pyval \<Rightarrow>
     (('a, 'v, 'm) run, 'a pyval \<times> 'a pyval) action" where
  "self_vec_inverse_fit_transform env X Y s =
     (case vec_inverse_fit_transform env (self_vectorizer (self s)) X Y of
        (r, v') \<Rightarrow>
          (r, s\<lparr>self := (self s)\<lparr>self_vectorizer := v'\<rparr>,
                 calls := calls s @ [VecInverseFitTransform X Y]\<rparr>))"

definition self_model_fit ::
  "('a, 'v, 'm) collaborators \<Rightarrow> 'a pyval \<Rightarrow> 'a pyval \<Rightarrow> (('a, 'v, 'm) run, unit) action" where
  "self_model_fit env X Y s =
     (case model_fit env (self_model (self s)) X Y of
        (r, m') \<Rightarrow>
          (r, s\<lparr>self := (self s)\<lparr>self_model := m'\<rparr>, calls := calls s @ [ModelFit X Y]\<rparr>))"

definition self_model_predict ::
  "('a, 'v, 'm) collaborators \<Rightarrow> 'a pyval \<Rightarrow> (('a, 'v, 'm) run, 'a pyval) action" where
  "self_model_predict env X s =
     (case model_predict env (self_model (self s)) X of
        (r, m') \<Rightarrow>
          (r, s\<lparr>self := (self s)\<lparr>self_model := m'\<rparr>, calls := calls s @ [ModelPredict X]\<rparr>))"

text \<open>Calls on the local clone \<^verbatim>\<open>obj\<close> of \<^verbatim>\<open>predict\<close>: they return its new state.\<close>

definition obj_fit_transform ::
  "('a, 'v, 'm) collaborators \<Rightarrow> 'v \<Rightarrow> 'a pyval \<Rightarrow> 'a pyval \<Rightarrow> bool option \<Rightarrow>
     (('a, 'v, 'm) run, ('a pyval \<times> 'a pyval) \<times> 'v) action" where
  "obj_fit_transform env obj X Y pred s =
     (case vec_fit_transform env obj X Y pred of
        (r, obj') \<Rightarrow>
          (case r of Inl e \<Rightarrow> Inl e | Inr p \<Rightarrow> Inr (p, obj'),
           s\<lparr>calls := calls s @ [VecFitTransform X Y pred]\<rparr>))"

definition obj_inverse_fit_transform ::
  "('a, 'v, 'm) collaborators \<Rightarrow> 'v \<Rightarrow> 'a pyval \<Rightarrow> 'a pyval \<Rightarrow>
     (('a, 'v, 'm) run, ('a pyval \<times> 'a pyval) \<times> 'v) action" where
  "obj_inverse_fit_transform env obj X Y s =
     (case vec_inverse_fit_transform env obj X Y of
        (r, obj') \<Rightarrow>
          (case r of Inl e \<Rightarrow> Inl e | Inr p \<Rightarrow> Inr (p, obj'),
           s\<lparr>calls := calls s @ [VecInverseFitTransform X Y]\<rparr>))"

text \<open>
  Unpacking \<^verbatim>\<open>a, b, c = self.flatten(...)\<close>: the 2-tuple of the \<^verbatim>\<open>else\<close> branch
  does not unpack into three names (ValueError, before anything is assigned).
\<close>

fun unpack3 :: "'a flattened \<Rightarrow> error + ('a pyval \<times> 'a pyval \<times> int list)" where
  "unpack3 (Flat2 fX fY) = Inl ValueError"
| "unpack3 (Flat3 fX fY fZ) = Inr (Seq fX, Seq fY, fZ)"

definition assign_XYZ ::
  "'a pyval \<Rightarrow> 'a pyval \<Rightarrow> int list \<Rightarrow> (('a, 'v, 'm) run, unit) action" where
  "assign_XYZ fX fY fZ s =
     (Inr (), s\<lparr>self := (self s)\<lparr>self_X := fX, self_Y := fY, self_Z := Some fZ\<rparr>\<rparr>)"

text \<open>\<^verbatim>\<open>self.inverse_flatten(X, Y, self._Z)\<close>: \<^verbatim>\<open>len(None)\<close> is a TypeError.\<close>

definition inverse_flatten_attr ::
  "'a pyval \<Rightarrow> 'a pyval \<Rightarrow> int list option \<Rightarrow> error + ('a pyval \<times> 'a pyval)" where
  "inverse_flatten_attr X Y Zo =
     (case Zo of None \<Rightarrow> Inl TypeError | Some Z \<Rightarrow> inverse_flatten X Y Z)"

definition fit ::
  "('a, 'v, 'm) collaborators \<Rightarrow> 'a pyval \<Rightarrow> 'a pyval \<Rightarrow> (('a, 'v, 'm) run, unit) action" where
  "fit env X Y =
     and_then (self_vec_fit_transform env X Y None) (\<lambda>(tX, tY).
     and_then (pure_step (flatten (numpy_module env) tX tY)) (\<lambda>dat.
     and_then (pure_step (unpack3 dat)) (\<lambda>(fX, fY, fZ).
     and_then (assign_XYZ fX fY fZ) (\<lambda>_.
     and_then (\<lambda>s. self_model_fit env (self_X (self s)) (self_Y (self s)) s) (\<lambda>_.
     return_val ())))))"

definition fit_predict ::
  "('a, 'v, 'm) collaborators \<Rightarrow> 'a pyval \<Rightarrow> 'a pyval \<Rightarrow>
     (('a, 'v, 'm) run, 'a pyval) action" where
  "fit_predict env X Y =
     and_then (fit env X Y) (\<lambda>_.
     and_then (\<lambda>s. self_model_predict env (self_X (self s)) s) (\<lambda>pY.
     and_then (\<lambda>s. pure_step
                 (inverse_flatten_attr (self_X (self s)) pY (self_Z (self s))) s) (\<lambda>(fX, fY).
     and_then (self_vec_inverse_fit_transform env fX fY) (\<lambda>(rX, rY).
     return_val rY))))"

definition predict ::
  "('a, 'v, 'm) collaborators \<Rightarrow> 'a pyval \<Rightarrow> (('a, 'v, 'm) run, 'a pyval) action" where
  "predict env X s =
     (if self_Y (self s) = PyNone then
        raise_error
          (AssertionError ''Model has not been fit! Cannot make predictions for new data.'') s
      else
        and_then (self_vec_clone env) (\<lambda>obj.
        and_then (\<lambda>s. obj_fit_transform env obj X (self_Y (self s)) (Some True) s)
          (\<lambda>((tX, tY), obj').
        and_then (pure_step (flatten (numpy_module env) tX tY)) (\<lambda>dat.
        and_then (pure_step (unpack3 dat)) (\<lambda>(fX, fY, fZ).
        and_then (self_model_predict env fX) (\<lambda>pY.
        and_then (pure_step (inverse_flatten fX pY fZ)) (\<lambda>(fX', fY').
        and_then (obj_inverse_fit_transform env obj' fX' pY) (\<lambda>((rX, rY), obj'').
        return_val rY))))))) s)"

section \<open>Vocabulary of the properties\<close>

text \<open>The elements of a sequence; its length.\<close>

fun items :: "'a pyval \<Rightarrow> 'a pyval list" where
  "items (Seq xs) = xs"
| "items v = []"

definition seq_len :: "'a pyval \<Rightarrow> int" where
  "seq_len v = int (length (items v))"

text \<open>
  A flat level: \<open>ys\<close> are responses that are no sequences, \<open>xs\<close> are as many
  predictors, each a leaf vector (a sequence).
\<close>

definition flat_pair :: "'a pyval list \<Rightarrow> 'a pyval list \<Rightarrow> bool" where
  "flat_pair xs ys \<longleftrightarrow>
     length xs = length ys \<and> list_all is_sequence xs \<and> list_all (\<lambda>y. \<not> is_sequence y) ys"

text \<open>Exactly one level of nesting: every \<open>Y[i]\<close> is flat and \<open>X[i]\<close> matches it.\<close>

fun one_level_pair :: "'a pyval \<Rightarrow> 'a pyval \<Rightarrow> bool" where
  "one_level_pair (Seq xs) (Seq ys) = flat_pair xs ys"
| "one_level_pair x y = False"

fun one_level :: "'a pyval \<Rightarrow> 'a pyval \<Rightarrow> bool" where
  "one_level (Seq xss) (Seq yss) = list_all2 one_level_pair xss yss"
| "one_level X Y = False"

text \<open>
  Matching ragged shape, to any depth: \<open>X\<close> is nested as \<open>Y\<close> is, with a leaf vector
  wherever \<open>Y\<close> has a response that is no sequence.
\<close>

fun same_shape :: "'a pyval \<Rightarrow> 'a pyval \<Rightarrow> bool" where
  "same_shape (Seq xs) (Seq ys) = list_all2 same_shape xs ys"
| "same_shape PyNone (Seq ys) = False"
| "same_shape (Scalar x) (Seq ys) = False"
| "same_shape X Y = is_sequence X"

text \<open>The concatenation of a sequence of groups; \<open>None\<close> if an element is no group.\<close>

fun concat_groups :: "'a pyval \<Rightarrow> 'a pyval list option" where
  "concat_groups (Seq gs) =
     (if list_all is_sequence gs then Some (concat (map items gs)) else None)"
| "concat_groups v = None"

text \<open>The slices the regrouping loop cuts, as a function of the cursor.\<close>

fun chunks :: "'b list \<Rightarrow> int \<Rightarrow> int list \<Rightarrow> 'b list list" where
  "chunks xs cidx [] = []"
| "chunks xs cidx (z # Z) = slice_list xs cidx (cidx + z) # chunks xs (cidx + z) Z"

text \<open>
  \<^verbatim>\<open>__init__\<close>: the vectorizer is the \<^verbatim>\<open>CompositeTransform\<close> built from the
  argument (its state is given), and the three cached attributes are the class
  attributes, \<^verbatim>\<open>None\<close>.
\<close>

definition learner_init :: "'v \<Rightarrow> 'm \<Rightarrow> ('a, 'v, 'm) learner" where
  "learner_init transform m =
     \<lparr>self_vectorizer = transform, self_model = m,
      self_X = PyNone, self_Y = PyNone, self_Z = None\<rparr>"

subsection \<open>A concrete learner\<close>

text \<open>
  A numpy for concrete runs. It raises ValueError on a list of sequences of equal
  length whose rows differ in length (numpy cannot store arrays of mismatching
  trailing shape in one array), and otherwise stores the elements as they are.
\<close>

definition row_lengths :: "'a pyval \<Rightarrow> nat list" where
  "row_lengths v = map (\<lambda>r. length (items r)) (items v)"

definition shape_mismatch :: "'a pyval list \<Rightarrow> bool" where
  "shape_mismatch L \<longleftrightarrow>
     list_all (\<lambda>c. is_sequence c \<and> list_all is_sequence (items c)) L \<and>
     list_ex (\<lambda>c. list_ex (\<lambda>d. length (items c) = length (items d) \<and>
                                  row_lengths c \<noteq> row_lengths d) L) L"

definition demo_numpy :: "int numpy" where
  "demo_numpy =
     \<lparr>np_raises = (\<lambda>L. if shape_mismatch L then Some ValueError else None),
      np_stored = (\<lambda>L x. x)\<rparr>"

text \<open>
  Collaborators for concrete runs: a vectorizer that returns its inputs (with
  \<^verbatim>\<open>pred=True\<close> it supplies responses nested like the predictors), and a model
  whose predictions are \<^verbatim>\<open>[9, 8, 7]\<close>. \<open>demo_fitted\<close> is the learner after
  \<^verbatim>\<open>fit(demo_X, demo_Y)\<close>, \<open>demo_fresh\<close> a new one. \<open>demo_storage\<close> holds one
  file, which does not unpickle, and has a models directory; in
  \<open>demo_storage_unbound\<close> the global \<^verbatim>\<open>session\<close> is unbound.
\<close>

definition demo_X :: "int pyval" where
  "demo_X = Seq [Seq [Seq [Scalar 1], Seq [Scalar 2]], Seq [Seq [Scalar 3]]]"

definition demo_Y :: "int pyval" where
  "demo_Y = Seq [Seq [Scalar 0, Scalar 1], Seq [Scalar 1]]"

definition demo_env :: "(int, unit, unit) collaborators" where
  "demo_env =
     \<lparr>numpy_module = demo_numpy,
      vec_clone = (\<lambda>v. Inr v),
      vec_fit_transform =
        (\<lambda>v X Y pred. (Inr (X, if pred = Some True then demo_Y else Y), v)),
      vec_inverse_fit_transform = (\<lambda>v X Y. (Inr (X, Y), v)),
      model_fit = (\<lambda>m X Y. (Inr (), m)),
      model_predict = (\<lambda>m X. (Inr (Seq [Scalar 9, Scalar 8, Scalar 7]), m))\<rparr>"

definition demo_fitted :: "(int, unit, unit) run" where
  "demo_fitted =
     \<lparr>self = \<lparr>self_vectorizer = (), self_model = (),
              self_X = Seq [Seq [Scalar 1], Seq [Scalar 2], Seq [Scalar 3]],
              self_Y = Seq [Scalar 0, Scalar 1, Scalar 1], self_Z = Some [2, 1]\<rparr>,
      calls = []\<rparr>"

definition demo_fresh :: "(int, unit, unit) run" where
  "demo_fresh = \<lparr>self = learner_init () (), calls = []\<rparr>"

definition demo_storage :: "unit storage" where
  "demo_storage =
     \<lparr>path_exists = (\<lambda>p. p = ''broken.pkl''),
      joblib_load = (\<lambda>p. Inl (OtherError ''UnpicklingError'')),
      session_models = Some ''models''\<rparr>"

definition demo_storage_unbound :: "unit storage" where
  "demo_storage_unbound = demo_storage\<lparr>session_models := None\<rparr>"

section \<open>Properties of flatten and inverse\_flatten\<close>

lemma slice_list_nonneg:
  "0 \<le> i \<Longrightarrow> i \<le> j \<Longrightarrow> slice_list xs i j = take (nat j - nat i) (drop (nat i) xs)"
  by (auto simp: slice_list_def slice_bound_def Let_def min_def nat_diff_distrib)

lemma take_drop_append:
  "take b (drop a xs) @ take c (drop (a + b) xs) = take (b + c) (drop a xs)"
  by (simp add: take_add add.commute)

lemma slice_list_append:
  assumes "0 \<le> i" "i \<le> j" "j \<le> k"
  shows "slice_list xs i j @ slice_list xs j k = slice_list xs i k"
proof -
  have j: "nat i + (nat j - nat i) = nat j"
    and k: "(nat j - nat i) + (nat k - nat j) = nat k - nat i"
    using assms by simp_all
  have "take (nat j - nat i) (drop (nat i) xs) @ take (nat k - nat j) (drop (nat j) xs)
        = take (nat k - nat i) (drop (nat i) xs)"
    using take_drop_append [of "nat j - nat i" "nat i" xs "nat k - nat j"]
    by (simp only: j k)
  moreover have "slice_list xs i j = take (nat j - nat i) (drop (nat i) xs)"
    using assms by (simp add: slice_list_nonneg)
  moreover have "slice_list xs j k = take (nat k - nat j) (drop (nat j) xs)"
    using assms by (simp add: slice_list_nonneg)
  moreover have "slice_list xs i k = take (nat k - nat i) (drop (nat i) xs)"
    using assms by (simp add: slice_list_nonneg)
  ultimately show ?thesis
    by (simp only:)
qed

lemma slice_list_empty: "slice_list xs i i = []"
  by (simp add: slice_list_def)

lemma concat_chunks:
  "0 \<le> c \<Longrightarrow> list_all (\<lambda>z. 0 \<le> z) Z \<Longrightarrow>
   concat (chunks xs c Z) = slice_list xs c (c + sum_list Z)"
proof (induction Z arbitrary: c)
  case Nil
  then show ?case by (simp add: slice_list_empty)
next
  case (Cons z Z)
  then have z: "0 \<le> z" and Z: "list_all (\<lambda>z. 0 \<le> z) Z" by simp_all
  have s: "0 \<le> sum_list Z" using Z by (induction Z) simp_all
  have "concat (chunks xs (c + z) Z) = slice_list xs (c + z) (c + z + sum_list Z)"
    using Cons.IH [of "c + z"] Cons.prems(1) z Z by simp
  then show ?case
    using slice_list_append [of c "c + z" "c + z + sum_list Z" xs] Cons.prems(1) z s
    by (simp add: add.assoc)
qed

lemma slice_list_prefix:
  "0 \<le> k \<Longrightarrow> slice_list xs 0 k = take (nat (min k (int (length xs)))) xs"
  by (auto simp: slice_list_def slice_bound_def Let_def min_def)

lemma length_chunks: "length (chunks xs c Z) = length Z"
  by (induction Z arbitrary: c) simp_all

lemma regroup_loop_chunks:
  "regroup_loop (Seq xs) (Seq ys) Z c tX tY =
     Inr (tX @ map Seq (chunks xs c Z), tY @ map Seq (chunks ys c Z))"
  by (induction Z arbitrary: c tX tY) simp_all

lemma inverse_flatten_regroup:
  "length Z < length ys \<Longrightarrow>
   inverse_flatten (Seq xs) (Seq ys) Z =
     Inr (Seq (map Seq (chunks xs 0 Z)), Seq (map Seq (chunks ys 0 Z)))"
  by (simp add: inverse_flatten_def regroup_loop_chunks)

lemma concat_groups_map_Seq: "concat_groups (Seq (map Seq gs)) = Some (concat gs)"
  by (simp add: list_all_iff comp_def)

lemma numpy_array_length: "numpy_array np L = Inr r \<Longrightarrow> length r = length L"
  by (auto simp: numpy_array_def split: option.splits)

lemma numpy_array_error: "numpy_array np L = Inl e \<Longrightarrow> np_raises np L = Some e"
  by (auto simp: numpy_array_def split: option.splits)

lemma flatten_nonseq: "\<not> is_sequence Y \<Longrightarrow> flatten np X Y = Inr (Flat2 [X] [Y])"
  by (cases Y) simp_all

lemma py_len_seq: "is_sequence x \<Longrightarrow> py_len x = Inr (seq_len x)"
  by (cases x) (simp_all add: seq_len_def)

lemma flatten_Seq:
  "flatten np (Seq xs) (Seq ys) =
     (case flatten_loop np xs ys [] [] [] of
        Inl e \<Rightarrow> Inl e
      | Inr (fX, fY, fZ) \<Rightarrow>
          (case numpy_array np fX of
             Inl e \<Rightarrow> Inl e
           | Inr aX \<Rightarrow>
               (case numpy_array np fY of
                  Inl e \<Rightarrow> Inl e
                | Inr aY \<Rightarrow> Inr (Flat3 aX aY fZ))))"
  by simp

lemma flatten_loop_flat:
  "flat_pair xs ys \<Longrightarrow>
   flatten_loop np xs ys fX fY fZ = Inr (fX @ xs, fY @ ys, fZ @ map seq_len xs)"
proof (induction xs arbitrary: ys fX fY fZ)
  case Nil
  then show ?case by (simp add: flat_pair_def)
next
  case (Cons x xs)
  then obtain y ys' where ys: "ys = y # ys'" by (cases ys) (auto simp: flat_pair_def)
  with Cons.prems have fp: "flat_pair xs ys'" and x: "is_sequence x" and y: "\<not> is_sequence y"
    by (auto simp: flat_pair_def)
  show ?case
    using Cons.IH [OF fp] by (simp add: ys flatten_nonseq [OF y] py_len_seq [OF x])
qed

lemma flatten_flat:
  "flat_pair xs ys \<Longrightarrow>
   flatten np (Seq xs) (Seq ys) =
     (case numpy_array np xs of
        Inl e \<Rightarrow> Inl e
      | Inr aX \<Rightarrow>
          (case numpy_array np ys of
             Inl e \<Rightarrow> Inl e
           | Inr aY \<Rightarrow> Inr (Flat3 aX aY (map seq_len xs))))"
  by (simp only: flatten_Seq flatten_loop_flat [of xs ys np "[]" "[]" "[]"]) simp

lemma flatten_SeqE:
  assumes "flatten np X (Seq ys) = Inr r"
  obtains xs fX fY fZ aX aY where "X = Seq xs"
    and "flatten_loop np xs ys [] [] [] = Inr (fX, fY, fZ)"
    and "numpy_array np fX = Inr aX" and "numpy_array np fY = Inr aY"
    and "r = Flat3 aX aY fZ"
proof -
  from assms obtain xs where X: "X = Seq xs" by (cases X) simp_all
  from assms [unfolded X flatten_Seq] show ?thesis
    using X by (auto split: sum.splits prod.splits intro: that)
qed

lemma flatten_loop_ConsE:
  assumes "flatten_loop np (x # xs) ys fX fY fZ = Inr g"
  obtains y ys' dat n where "ys = y # ys'" and "flatten np x y = Inr dat"
    and "py_len x = Inr n"
    and "flatten_loop np xs ys' (fX @ flatX dat) (fY @ flatY dat) (fZ @ [n]) = Inr g"
proof -
  from assms obtain y ys' where ys: "ys = y # ys'" by (cases ys) simp_all
  from assms [unfolded ys] show ?thesis
    using ys by (auto split: sum.splits intro: that)
qed

lemma flatten_lengths:
  "(\<forall>r. flatten np X Y = Inr r \<longrightarrow> length (flatX r) = length (flatY r))"
  "(\<forall>g. flatten_loop np xs ys fX fY fZ = Inr g \<longrightarrow>
       length fX = length fY \<longrightarrow> length (fst g) = length (fst (snd g)))"
proof (induction np X Y and np xs ys fX fY fZ rule: flatten_flatten_loop.induct)
  case (1 np X ys)
  show ?case
  proof (intro allI impI)
    fix r
    assume run: "flatten np X (Seq ys) = Inr r"
    from run obtain xs fX fY fZ aX aY where X: "X = Seq xs"
      and loop: "flatten_loop np xs ys [] [] [] = Inr (fX, fY, fZ)"
      and ax: "numpy_array np fX = Inr aX" and ay: "numpy_array np fY = Inr aY"
      and r: "r = Flat3 aX aY fZ"
      by (rule flatten_SeqE)
    from "1.IH" [OF X] loop have "length fX = length fY" by fastforce
    with numpy_array_length [OF ax] numpy_array_length [OF ay] r
    show "length (flatX r) = length (flatY r)" by simp
  qed
next
  case (2 np X)
  show ?case by simp
next
  case (3 np X y)
  show ?case by simp
next
  case (4 np ys fX fY fZ)
  show ?case by simp
next
  case (5 np x xs fX fY fZ)
  show ?case by simp
next
  case (6 np x xs y ys fX fY fZ)
  show ?case
  proof (intro allI impI)
    fix g
    assume run: "flatten_loop np (x # xs) (y # ys) fX fY fZ = Inr g"
      and len: "length fX = length fY"
    from run obtain y' ys' dat n where ys: "y # ys = y' # ys'"
      and dat: "flatten np x y' = Inr dat" and n: "py_len x = Inr n"
      and rest: "flatten_loop np xs ys' (fX @ flatX dat) (fY @ flatY dat) (fZ @ [n]) = Inr g"
      by (rule flatten_loop_ConsE)
    from ys have y: "y' = y" "ys' = ys" by simp_all
    from "6.IH"(1) dat y have "length (flatX dat) = length (flatY dat)" by blast
    with len have l: "length (fX @ flatX dat) = length (fY @ flatY dat)" by simp
    from "6.IH"(2) [OF dat [unfolded y] n] rest [unfolded y] l
    show "length (fst g) = length (fst (snd g))" by blast
  qed
qed

lemma one_level_sum:
  "list_all2 one_level_pair xss yss \<Longrightarrow>
   sum_list (map seq_len xss) = int (length (concat (map items xss)))"
  by (induction xss yss rule: list_all2_induct) (simp_all add: seq_len_def)

lemma one_level_length:
  "list_all2 one_level_pair xss yss \<Longrightarrow>
   length (concat (map items xss)) = length (concat (map items yss))"
proof (induction xss yss rule: list_all2_induct)
  case Nil
  then show ?case by simp
next
  case (Cons x xss y yss)
  from Cons.hyps(1) have "length (items x) = length (items y)"
    by (cases x; cases y) (auto simp: flat_pair_def)
  with Cons.IH show ?case by simp
qed

lemma flatten_flat_cases:
  assumes "flat_pair xs ys"
  shows "(\<exists>aX aY. flatten np (Seq xs) (Seq ys) = Inr (Flat3 aX aY (map seq_len xs)) \<and>
            length aX = length xs \<and> length aY = length ys) \<or>
         (\<exists>L e. np_raises np L = Some e \<and> flatten np (Seq xs) (Seq ys) = Inl e)"
proof (cases "numpy_array np xs")
  case (Inl e)
  with flatten_flat [OF assms, of np] numpy_array_error [OF Inl] show ?thesis by auto
next
  case ax: (Inr aX)
  show ?thesis
  proof (cases "numpy_array np ys")
    case (Inl e)
    with ax flatten_flat [OF assms, of np] numpy_array_error [OF Inl] show ?thesis by auto
  next
    case (Inr aY)
    with ax flatten_flat [OF assms, of np] numpy_array_length [OF ax] numpy_array_length [OF Inr]
    show ?thesis by auto
  qed
qed

lemma flatten_loop_one_level:
  "list_all2 one_level_pair xss yss \<Longrightarrow>
   (\<exists>gX gY. flatten_loop np xss yss fX fY fZ = Inr (gX, gY, fZ @ map seq_len xss) \<and>
       length gX = length fX + length (concat (map items xss)) \<and>
       length gY = length fY + length (concat (map items yss))) \<or>
   (\<exists>L e. np_raises np L = Some e \<and> flatten_loop np xss yss fX fY fZ = Inl e)"
proof (induction xss yss arbitrary: fX fY fZ rule: list_all2_induct)
  case Nil
  then show ?case by simp
next
  case (Cons x xss y yss)
  from Cons.hyps(1) obtain xs ys where xy: "x = Seq xs" "y = Seq ys" and fp: "flat_pair xs ys"
    by (cases x; cases y) auto
  from flatten_flat_cases [OF fp, of np] show ?case
  proof (elim disjE exE conjE)
    fix aX aY
    assume dat: "flatten np (Seq xs) (Seq ys) = Inr (Flat3 aX aY (map seq_len xs))"
      and lx: "length aX = length xs" and ly: "length aY = length ys"
    have step: "flatten_loop np (x # xss) (y # yss) fX fY fZ =
                  flatten_loop np xss yss (fX @ aX) (fY @ aY) (fZ @ [seq_len x])"
      by (simp only: xy flatten_loop.simps dat) (simp add: seq_len_def)
    from Cons.IH [of "fX @ aX" "fY @ aY" "fZ @ [seq_len x]"] show ?thesis
      by (simp only: step) (auto simp: lx ly xy)
  next
    fix L e
    assume "np_raises np L = Some e" and "flatten np (Seq xs) (Seq ys) = Inl e"
    then show ?thesis by (auto simp: xy)
  qed
qed

lemma flatten_one_level:
  assumes "one_level X Y"
  shows "(\<exists>fX fY. flatten np X Y = Inr (Flat3 fX fY (map seq_len (items X))) \<and>
            length fX = length (concat (map items (items X))) \<and>
            length fY = length (concat (map items (items Y)))) \<or>
         (\<exists>L e. np_raises np L = Some e \<and> flatten np X Y = Inl e)"
proof -
  from assms obtain xss yss where XY: "X = Seq xss" "Y = Seq yss"
    and l2: "list_all2 one_level_pair xss yss"
    by (cases X; cases Y) auto
  from flatten_loop_one_level [OF l2, of np "[]" "[]" "[]"] show ?thesis
  proof (elim disjE exE conjE)
    fix gX gY
    assume loop: "flatten_loop np xss yss [] [] [] = Inr (gX, gY, [] @ map seq_len xss)"
      and lx: "length gX = length ([] :: 'a pyval list) + length (concat (map items xss))"
      and ly: "length gY = length ([] :: 'a pyval list) + length (concat (map items yss))"
    show ?thesis
    proof (cases "numpy_array np gX")
      case (Inl e)
      with loop numpy_array_error [OF Inl] show ?thesis
        by (auto simp: XY)
    next
      case ax: (Inr aX)
      show ?thesis
      proof (cases "numpy_array np gY")
        case (Inl e)
        with ax loop numpy_array_error [OF Inl] show ?thesis
          by (auto simp: XY)
      next
        case (Inr aY)
        with ax loop lx ly numpy_array_length [OF ax] numpy_array_length [OF Inr]
        show ?thesis by (auto simp: XY)
      qed
    qed
  next
    fix L e
    assume "np_raises np L = Some e" and "flatten_loop np xss yss [] [] [] = Inl e"
    then show ?thesis by (auto simp: XY)
  qed
qed

text \<open>
  C1 (as amended). \<^verbatim>\<open>flatten\<close> returns the pair \<^verbatim>\<open>([X], [Y])\<close>, with no group-size
  component, when the response \<open>Y\<close> itself is no sequence. For a flat response
  sequence \<open>ys\<close> and as many leaf vectors \<open>xs\<close> it returns the arrays that
  \<^verbatim>\<open>numpy.array\<close> builds from \<open>xs\<close> and from \<open>ys\<close>, with the group sizes
  \<^verbatim>\<open>[len(x) for x in xs]\<close>, one for each element; or it raises what
  \<^verbatim>\<open>numpy.array\<close> raises.
\<close>

theorem flatten_base_case:
  "(\<not> is_sequence Y \<longrightarrow> flatten np X Y = Inr (Flat2 [X] [Y])) \<and>
   (flat_pair xs ys \<longrightarrow>
      flatten np (Seq xs) (Seq ys) =
        (case numpy_array np xs of
           Inl e \<Rightarrow> Inl e
         | Inr aX \<Rightarrow>
             (case numpy_array np ys of
                Inl e \<Rightarrow> Inl e
              | Inr aY \<Rightarrow> Inr (Flat3 aX aY (map seq_len xs)))))"
  using flatten_nonseq [of Y np X] flatten_flat [of xs ys np] by blast

text \<open>C1: the amended statement at a scalar response and at a flat response sequence.\<close>

theorem flatten_base_case_witness:
  "\<not> is_sequence (Scalar (0::int)) \<and>
   flatten demo_numpy (Seq [Scalar 5]) (Scalar 0) = Inr (Flat2 [Seq [Scalar 5]] [Scalar 0]) \<and>
   flat_pair [Seq [Scalar 1, Scalar 2], Seq [Scalar 3, Scalar 4]] [Scalar 0, Scalar (1::int)] \<and>
   flatten demo_numpy (Seq [Seq [Scalar 1, Scalar 2], Seq [Scalar 3, Scalar 4]])
     (Seq [Scalar 0, Scalar 1]) =
     Inr (Flat3 [Seq [Scalar 1, Scalar 2], Seq [Scalar 3, Scalar 4]] [Scalar 0, Scalar 1] [2, 2])"
proof -
  have s: "\<not> is_sequence (Scalar (0::int))" by simp
  have f: "flat_pair [Seq [Scalar 1, Scalar 2], Seq [Scalar 3, Scalar 4]] [Scalar 0, Scalar (1::int)]"
    by (simp add: flat_pair_def)
  have n1: "numpy_array demo_numpy [Seq [Scalar 1, Scalar 2], Seq [Scalar 3, Scalar 4]] =
              Inr [Seq [Scalar 1, Scalar 2], Seq [Scalar 3, Scalar 4]]"
    by (simp add: numpy_array_def demo_numpy_def shape_mismatch_def)
  have n2: "numpy_array demo_numpy [Scalar 0, Scalar 1] = Inr [Scalar 0, Scalar 1]"
    by (simp add: numpy_array_def demo_numpy_def shape_mismatch_def)
  from flatten_base_case [of "Scalar 0" demo_numpy "Seq [Scalar 5]"
      "[Seq [Scalar 1, Scalar 2], Seq [Scalar 3, Scalar 4]]" "[Scalar 0, Scalar 1]"] s f
  show ?thesis by (simp only: n1 n2) (simp add: seq_len_def)
qed

text \<open>
  C1 as stated fails: for two leaf vectors and the flat responses \<^verbatim>\<open>[0, 1]\<close> the result
  is not \<^verbatim>\<open>([X], [Y])\<close> and the group sizes are \<^verbatim>\<open>[2, 2]\<close>, not empty.
\<close>

theorem flatten_flat_response_counterexample:
  "flat_pair [Seq [Scalar 1, Scalar 2], Seq [Scalar 3, Scalar 4]] [Scalar 0, Scalar (1::int)] \<and>
   flatten demo_numpy (Seq [Seq [Scalar 1, Scalar 2], Seq [Scalar 3, Scalar 4]])
     (Seq [Scalar 0, Scalar 1]) =
     Inr (Flat3 [Seq [Scalar 1, Scalar 2], Seq [Scalar 3, Scalar 4]] [Scalar 0, Scalar 1] [2, 2]) \<and>
   flatten demo_numpy (Seq [Seq [Scalar 1, Scalar 2], Seq [Scalar 3, Scalar 4]])
     (Seq [Scalar 0, Scalar 1]) \<noteq>
     Inr (Flat2 [Seq [Seq [Scalar 1, Scalar 2], Seq [Scalar 3, Scalar 4]]]
            [Seq [Scalar 0, Scalar 1]])"
  by (simp add: flat_pair_def numpy_array_def demo_numpy_def shape_mismatch_def)

text \<open>
  C2 (as amended). \<^verbatim>\<open>inverse_flatten\<close> returns \<open>X\<close> and \<open>Y\<close> unchanged whenever
  \<^verbatim>\<open>len(Z) >= len(Y)\<close>; for an empty \<open>Z\<close> that is the case of an empty \<open>Y\<close>.
\<close>

theorem inverse_flatten_noop:
  "length ys \<le> length Z \<Longrightarrow> inverse_flatten X (Seq ys) Z = Inr (X, Seq ys)"
  by (simp add: inverse_flatten_def)

text \<open>C2: the identity path with one group size per element, and with everything empty.\<close>

theorem inverse_flatten_noop_witness:
  "length [Scalar 0, Scalar (1::int)] \<le> length [2, 1::int] \<and>
   inverse_flatten (Seq [Seq [Scalar 1, Scalar 2], Seq [Scalar 3]]) (Seq [Scalar 0, Scalar (1::int)])
     [2, 1] = Inr (Seq [Seq [Scalar 1, Scalar 2], Seq [Scalar 3]], Seq [Scalar 0, Scalar 1]) \<and>
   length ([] :: int pyval list) \<le> length ([] :: int list) \<and>
   inverse_flatten (Seq []) (Seq ([] :: int pyval list)) [] = Inr (Seq [], Seq [])"
  using inverse_flatten_noop [of "[Scalar 0, Scalar (1::int)]" "[2, 1]"
      "Seq [Seq [Scalar 1, Scalar 2], Seq [Scalar 3]]"]
    inverse_flatten_noop [of "[] :: int pyval list" "[]" "Seq []"]
  by simp

text \<open>
  C2 as stated fails: with an empty \<open>Z\<close> and two elements the guard
  \<^verbatim>\<open>len(Z) < len(Y)\<close> holds, the loop runs zero times and both results are empty.
\<close>

theorem inverse_flatten_empty_Z_counterexample:
  "inverse_flatten (Seq [Scalar 5, Scalar 6]) (Seq [Scalar 0, Scalar (1::int)]) [] =
     Inr (Seq [], Seq []) \<and>
   inverse_flatten (Seq [Scalar 5, Scalar 6]) (Seq [Scalar 0, Scalar (1::int)]) [] \<noteq>
     Inr (Seq [Scalar 5, Scalar 6], Seq [Scalar 0, Scalar 1])"
  by (simp add: inverse_flatten_def)

text \<open>
  C3 (as amended). Whenever \<^verbatim>\<open>flatten\<close> returns a triple, at any depth of nesting,
  the flattened predictors and the flattened responses have the same length. For
  \<open>X\<close> and \<open>Y\<close> with exactly one level of nesting the group sizes sum to that
  length, and \<^verbatim>\<open>flatten\<close> does return a triple unless \<^verbatim>\<open>numpy.array\<close> raises, which
  is then what \<^verbatim>\<open>flatten\<close> raises.
\<close>

theorem flatten_group_sizes_sum:
  "(flatten np X Y = Inr (Flat3 fX fY fZ) \<longrightarrow> length fX = length fY) \<and>
   (one_level X Y \<longrightarrow> flatten np X Y = Inr (Flat3 fX fY fZ) \<longrightarrow>
      sum_list fZ = int (length fX)) \<and>
   (one_level X Y \<longrightarrow>
      (\<exists>aX aY aZ. flatten np X Y = Inr (Flat3 aX aY aZ)) \<or>
      (\<exists>L e. np_raises np L = Some e \<and> flatten np X Y = Inl e))"
proof (intro conjI impI)
  assume "flatten np X Y = Inr (Flat3 fX fY fZ)"
  with flatten_lengths(1) [of np X Y] show "length fX = length fY" by fastforce
next
  assume one: "one_level X Y" and run: "flatten np X Y = Inr (Flat3 fX fY fZ)"
  from one obtain xss yss where XY: "X = Seq xss" "Y = Seq yss"
    and l2: "list_all2 one_level_pair xss yss"
    by (cases X; cases Y) auto
  from flatten_one_level [OF one, of np] run
  have "fZ = map seq_len xss" and "length fX = length (concat (map items xss))"
    by (auto simp: XY)
  with one_level_sum [OF l2] show "sum_list fZ = int (length fX)" by simp
next
  assume one: "one_level X Y"
  from flatten_one_level [OF one, of np]
  show "(\<exists>aX aY aZ. flatten np X Y = Inr (Flat3 aX aY aZ)) \<or>
        (\<exists>L e. np_raises np L = Some e \<and> flatten np X Y = Inl e)"
    by blast
qed

text \<open>C3: the amended statement at \<^verbatim>\<open>X = [[a1, a2], [b1]]\<close>, \<^verbatim>\<open>Y = [[0, 1], [1]]\<close>.\<close>

theorem flatten_group_sizes_sum_witness:
  "one_level (Seq [Seq [Seq [Scalar 1], Seq [Scalar 2]], Seq [Seq [Scalar 3]]])
     (Seq [Seq [Scalar 0, Scalar 1], Seq [Scalar (1::int)]]) \<and>
   flatten demo_numpy (Seq [Seq [Seq [Scalar 1], Seq [Scalar 2]], Seq [Seq [Scalar 3]]])
     (Seq [Seq [Scalar 0, Scalar 1], Seq [Scalar 1]]) =
     Inr (Flat3 [Seq [Scalar 1], Seq [Scalar 2], Seq [Scalar 3]]
            [Scalar 0, Scalar 1, Scalar 1] [2, 1]) \<and>
   length [Seq [Scalar 1], Seq [Scalar 2], Seq [Scalar (3::int)]] =
     length [Scalar 0, Scalar 1, Scalar (1::int)] \<and>
   sum_list [2, 1::int] = int (length [Seq [Scalar 1], Seq [Scalar 2], Seq [Scalar (3::int)]])"
proof -
  have h: "one_level (Seq [Seq [Seq [Scalar 1], Seq [Scalar 2]], Seq [Seq [Scalar 3]]])
     (Seq [Seq [Scalar 0, Scalar 1], Seq [Scalar (1::int)]])"
    by (simp add: flat_pair_def)
  have r: "flatten demo_numpy (Seq [Seq [Seq [Scalar 1], Seq [Scalar 2]], Seq [Seq [Scalar 3]]])
     (Seq [Seq [Scalar 0, Scalar 1], Seq [Scalar 1]]) =
     Inr (Flat3 [Seq [Scalar 1], Seq [Scalar 2], Seq [Scalar 3]]
            [Scalar 0, Scalar 1, Scalar 1] [2, 1])"
    by (simp add: numpy_array_def demo_numpy_def shape_mismatch_def)
  from flatten_group_sizes_sum [of demo_numpy
      "Seq [Seq [Seq [Scalar 1], Seq [Scalar 2]], Seq [Seq [Scalar 3]]]"
      "Seq [Seq [Scalar 0, Scalar 1], Seq [Scalar 1]]"
      "[Seq [Scalar 1], Seq [Scalar 2], Seq [Scalar 3]]"
      "[Scalar 0, Scalar 1, Scalar 1]" "[2, 1]"] h r
  show ?thesis by blast
qed

text \<open>
  C3 as stated fails at two levels of nesting: \<open>Z\<close> counts the elements of
  \<^verbatim>\<open>X[idx]\<close>, here the two inner groups, while three leaves are flattened.
\<close>

theorem flatten_group_sizes_counterexample:
  "same_shape (Seq [Seq [Seq [Seq [Scalar 1], Seq [Scalar 2]], Seq [Seq [Scalar 3]]]])
     (Seq [Seq [Seq [Scalar 0, Scalar 1], Seq [Scalar (1::int)]]]) \<and>
   flatten demo_numpy (Seq [Seq [Seq [Seq [Scalar 1], Seq [Scalar 2]], Seq [Seq [Scalar 3]]]])
     (Seq [Seq [Seq [Scalar 0, Scalar 1], Seq [Scalar 1]]]) =
     Inr (Flat3 [Seq [Scalar 1], Seq [Scalar 2], Seq [Scalar 3]]
            [Scalar 0, Scalar 1, Scalar 1] [2]) \<and>
   sum_list [2::int] \<noteq> int (length [Seq [Scalar 1], Seq [Scalar 2], Seq [Scalar (3::int)]])"
  by (simp add: numpy_array_def demo_numpy_def shape_mismatch_def)

text \<open>
  C5 (as amended). The example of the specification, for leaf vectors \<open>a1\<close>, \<open>a2\<close>,
  \<open>b1\<close> that \<^verbatim>\<open>numpy.array\<close> stores as they are (it neither raises on nor
  converts the six lists that \<^verbatim>\<open>flatten\<close> hands to it): \<^verbatim>\<open>flatten\<close> yields
  \<^verbatim>\<open>[a1, a2, b1]\<close>, \<^verbatim>\<open>[0, 1, 1]\<close> and \<^verbatim>\<open>[2, 1]\<close>, and \<^verbatim>\<open>inverse_flatten\<close> regroups
  the predictions \<^verbatim>\<open>[9, 8, 7]\<close> into \<^verbatim>\<open>[[9, 8], [7]]\<close>.
\<close>

theorem flatten_example:
  assumes "numpy_array np [Seq a1, Seq a2] = Inr [Seq a1, Seq a2]"
    and "numpy_array np [Scalar 0, Scalar 1] = Inr [Scalar 0, Scalar (1::int)]"
    and "numpy_array np [Seq b1] = Inr [Seq b1]"
    and "numpy_array np [Scalar 1] = Inr [Scalar (1::int)]"
    and "numpy_array np [Seq a1, Seq a2, Seq b1] = Inr [Seq a1, Seq a2, Seq b1]"
    and "numpy_array np [Scalar 0, Scalar 1, Scalar 1] = Inr [Scalar 0, Scalar 1, Scalar (1::int)]"
  shows "flatten np (Seq [Seq [Seq a1, Seq a2], Seq [Seq b1]])
           (Seq [Seq [Scalar 0, Scalar 1], Seq [Scalar 1]]) =
           Inr (Flat3 [Seq a1, Seq a2, Seq b1] [Scalar 0, Scalar 1, Scalar 1] [2, 1]) \<and>
         inverse_flatten (Seq [Seq a1, Seq a2, Seq b1]) (Seq [Scalar 9, Scalar 8, Scalar 7])
           [2, 1] =
           Inr (Seq [Seq [Seq a1, Seq a2], Seq [Seq b1]],
                Seq [Seq [Scalar 9, Scalar 8], Seq [Scalar 7]])"
  using assms by (simp add: inverse_flatten_def slice_list_def slice_bound_def)

text \<open>C5: the amended statement at leaf vectors of two integers each.\<close>

theorem flatten_example_witness:
  "numpy_array demo_numpy [Seq [Scalar 1, Scalar 2], Seq [Scalar 3, Scalar 4]] =
     Inr [Seq [Scalar 1, Scalar 2], Seq [Scalar 3, Scalar 4]] \<and>
   numpy_array demo_numpy [Seq [Scalar 5, Scalar 6]] = Inr [Seq [Scalar 5, Scalar 6]] \<and>
   numpy_array demo_numpy
     [Seq [Scalar 1, Scalar 2], Seq [Scalar 3, Scalar 4], Seq [Scalar 5, Scalar 6]] =
     Inr [Seq [Scalar 1, Scalar 2], Seq [Scalar 3, Scalar 4], Seq [Scalar 5, Scalar 6]] \<and>
   flatten demo_numpy
     (Seq [Seq [Seq [Scalar 1, Scalar 2], Seq [Scalar 3, Scalar 4]], Seq [Seq [Scalar 5, Scalar 6]]])
     (Seq [Seq [Scalar 0, Scalar 1], Seq [Scalar 1]]) =
     Inr (Flat3 [Seq [Scalar 1, Scalar 2], Seq [Scalar 3, Scalar 4], Seq [Scalar 5, Scalar 6]]
            [Scalar 0, Scalar 1, Scalar 1] [2, 1]) \<and>
   inverse_flatten
     (Seq [Seq [Scalar 1, Scalar 2], Seq [Scalar 3, Scalar 4], Seq [Scalar 5, Scalar 6]])
     (Seq [Scalar 9, Scalar 8, Scalar (7::int)]) [2, 1] =
     Inr (Seq [Seq [Seq [Scalar 1, Scalar 2], Seq [Scalar 3, Scalar 4]],
               Seq [Seq [Scalar 5, Scalar 6]]],
          Seq [Seq [Scalar 9, Scalar 8], Seq [Scalar 7]])"
proof -
  have h1: "numpy_array demo_numpy [Seq [Scalar 1, Scalar 2], Seq [Scalar 3, Scalar 4]] =
              Inr [Seq [Scalar 1, Scalar 2], Seq [Scalar 3, Scalar 4]]"
    and h2: "numpy_array demo_numpy [Scalar 0, Scalar 1] = Inr [Scalar 0, Scalar 1]"
    and h3: "numpy_array demo_numpy [Seq [Scalar 5, Scalar 6]] = Inr [Seq [Scalar 5, Scalar 6]]"
    and h4: "numpy_array demo_numpy [Scalar 1] = Inr [Scalar 1]"
    and h5: "numpy_array demo_numpy
               [Seq [Scalar 1, Scalar 2], Seq [Scalar 3, Scalar 4], Seq [Scalar 5, Scalar 6]] =
             Inr [Seq [Scalar 1, Scalar 2], Seq [Scalar 3, Scalar 4], Seq [Scalar 5, Scalar 6]]"
    and h6: "numpy_array demo_numpy [Scalar 0, Scalar 1, Scalar 1] =
             Inr [Scalar 0, Scalar 1, Scalar 1]"
    by (simp_all add: numpy_array_def demo_numpy_def shape_mismatch_def)
  from flatten_example [OF h1 h2 h3 h4 h5 h6] h1 h3 h5 show ?thesis by blast
qed

text \<open>
  C5 as stated fails for leaves of mismatching trailing shape: with
  \<^verbatim>\<open>a1 = a2 = [[1, 2]]\<close> and \<^verbatim>\<open>b1 = [[1, 2, 3]]\<close> the two inner calls return arrays,
  and the conversion of their three rows in the outer call raises ValueError.
\<close>

theorem flatten_example_counterexample:
  "flatten demo_numpy
     (Seq [Seq [Seq [Seq [Scalar 1, Scalar 2]], Seq [Seq [Scalar 1, Scalar 2]]],
           Seq [Seq [Seq [Scalar 1, Scalar 2, Scalar 3]]]])
     (Seq [Seq [Scalar 0, Scalar 1], Seq [Scalar 1]]) = Inl ValueError \<and>
   numpy_array demo_numpy
     [Seq [Seq [Scalar 1, Scalar 2]], Seq [Seq [Scalar 1, Scalar 2]],
      Seq [Seq [Scalar 1, Scalar 2, Scalar 3]]] = Inl ValueError"
  by (simp add: numpy_array_def demo_numpy_def shape_mismatch_def row_lengths_def)

lemma seq_len_nonneg: "list_all (\<lambda>z. 0 \<le> z) (map seq_len xs)"
  by (induction xs) (simp_all add: seq_len_def)

text \<open>
  C4 (as amended). For \<open>X\<close> and \<open>Y\<close> with exactly one level of nesting and fewer
  groups than flattened elements, \<^verbatim>\<open>inverse_flatten\<close> applied to a triple that
  \<^verbatim>\<open>flatten\<close> returns yields groups whose concatenation is the flattened sequence,
  and as many groups as \<open>Z\<close> has entries.
\<close>

theorem flatten_inverse_flatten_roundtrip:
  assumes "one_level X Y"
    and "length (items Y) < length (concat (map items (items Y)))"
    and "flatten np X Y = Inr (Flat3 fX fY fZ)"
  shows "\<exists>gX gY.
           inverse_flatten (Seq fX) (Seq fY) fZ = Inr (gX, gY) \<and>
           concat_groups gX = Some fX \<and> concat_groups gY = Some fY \<and>
           py_len gY = Inr (int (length fZ))"
proof -
  from assms(1) obtain xss yss where XY: "X = Seq xss" "Y = Seq yss"
    and l2: "list_all2 one_level_pair xss yss"
    by (cases X; cases Y) auto
  from flatten_one_level [OF assms(1), of np] assms(3)
  have fZ: "fZ = map seq_len xss"
    and lx: "length fX = length (concat (map items xss))"
    and ly: "length fY = length (concat (map items yss))"
    by (auto simp: XY)
  have len: "length xss = length yss"
    using l2 by (rule list_all2_lengthD)
  have lt: "length fZ < length fY"
    using assms(2) len by (simp add: XY fZ ly)
  have nn: "list_all (\<lambda>z. 0 \<le> z) fZ"
    by (simp only: fZ seq_len_nonneg)
  have sx: "sum_list fZ = int (length fX)"
    using one_level_sum [OF l2] by (simp add: fZ lx)
  have sy: "sum_list fZ = int (length fY)"
    using one_level_sum [OF l2] one_level_length [OF l2] by (simp add: fZ ly)
  have cx: "concat (chunks fX 0 fZ) = fX"
    using concat_chunks [of 0 fZ fX] nn slice_list_prefix [of "sum_list fZ" fX]
    by (simp add: sx)
  have cy: "concat (chunks fY 0 fZ) = fY"
    using concat_chunks [of 0 fZ fY] nn slice_list_prefix [of "sum_list fZ" fY]
    by (simp add: sy)
  have inv: "inverse_flatten (Seq fX) (Seq fY) fZ =
               Inr (Seq (map Seq (chunks fX 0 fZ)), Seq (map Seq (chunks fY 0 fZ)))"
    by (rule inverse_flatten_regroup [OF lt])
  have gx: "concat_groups (Seq (map Seq (chunks fX 0 fZ))) = Some fX"
    by (simp only: concat_groups_map_Seq cx)
  have gy: "concat_groups (Seq (map Seq (chunks fY 0 fZ))) = Some fY"
    by (simp only: concat_groups_map_Seq cy)
  have ly: "py_len (Seq (map Seq (chunks fY 0 fZ))) = Inr (int (length fZ))"
    by (simp add: length_chunks)
  from inv gx gy ly show ?thesis by blast
qed

text \<open>C4: the amended statement at two groups holding three elements.\<close>

theorem flatten_inverse_flatten_roundtrip_witness:
  "one_level (Seq [Seq [Seq [Scalar 1], Seq [Scalar 2]], Seq [Seq [Scalar 3]]])
     (Seq [Seq [Scalar 0, Scalar 1], Seq [Scalar (1::int)]]) \<and>
   length (items (Seq [Seq [Scalar 0, Scalar 1], Seq [Scalar (1::int)]])) <
     length (concat (map items (items (Seq [Seq [Scalar 0, Scalar 1], Seq [Scalar (1::int)]])))) \<and>
   flatten demo_numpy (Seq [Seq [Seq [Scalar 1], Seq [Scalar 2]], Seq [Seq [Scalar 3]]])
     (Seq [Seq [Scalar 0, Scalar 1], Seq [Scalar 1]]) =
     Inr (Flat3 [Seq [Scalar 1], Seq [Scalar 2], Seq [Scalar 3]]
            [Scalar 0, Scalar 1, Scalar 1] [2, 1]) \<and>
   (\<exists>gX gY.
      inverse_flatten (Seq [Seq [Scalar 1], Seq [Scalar 2], Seq [Scalar 3]])
        (Seq [Scalar 0, Scalar 1, Scalar (1::int)]) [2, 1] = Inr (gX, gY) \<and>
      concat_groups gX = Some [Seq [Scalar 1], Seq [Scalar 2], Seq [Scalar 3]] \<and>
      concat_groups gY = Some [Scalar 0, Scalar 1, Scalar 1] \<and>
      py_len gY = Inr (int (length [2, 1::int])))"
proof -
  have h1: "one_level (Seq [Seq [Seq [Scalar 1], Seq [Scalar 2]], Seq [Seq [Scalar 3]]])
     (Seq [Seq [Scalar 0, Scalar 1], Seq [Scalar (1::int)]])"
    by (simp add: flat_pair_def)
  have h2: "length (items (Seq [Seq [Scalar 0, Scalar 1], Seq [Scalar (1::int)]])) <
     length (concat (map items (items (Seq [Seq [Scalar 0, Scalar 1], Seq [Scalar (1::int)]]))))"
    by simp
  have h3: "flatten demo_numpy (Seq [Seq [Seq [Scalar 1], Seq [Scalar 2]], Seq [Seq [Scalar 3]]])
     (Seq [Seq [Scalar 0, Scalar 1], Seq [Scalar 1]]) =
     Inr (Flat3 [Seq [Scalar 1], Seq [Scalar 2], Seq [Scalar 3]]
            [Scalar 0, Scalar 1, Scalar 1] [2, 1])"
    by (simp add: numpy_array_def demo_numpy_def shape_mismatch_def)
  from flatten_inverse_flatten_roundtrip [OF h1 h2 h3] h1 h2 h3 show ?thesis by blast
qed

text \<open>
  C4 as stated fails when every group has one element: \<^verbatim>\<open>len(Z) < len(Y)\<close> is false,
  the flat sequences come back unchanged, and their elements are no groups of the
  flattened elements.
\<close>

theorem roundtrip_singleton_groups_counterexample:
  "one_level (Seq [Seq [Seq [Scalar 1, Scalar 2]], Seq [Seq [Scalar 3, Scalar 4]]])
     (Seq [Seq [Scalar 0], Seq [Scalar (1::int)]]) \<and>
   flatten demo_numpy (Seq [Seq [Seq [Scalar 1, Scalar 2]], Seq [Seq [Scalar 3, Scalar 4]]])
     (Seq [Seq [Scalar 0], Seq [Scalar 1]]) =
     Inr (Flat3 [Seq [Scalar 1, Scalar 2], Seq [Scalar 3, Scalar 4]] [Scalar 0, Scalar 1] [1, 1]) \<and>
   inverse_flatten (Seq [Seq [Scalar 1, Scalar 2], Seq [Scalar 3, Scalar 4]])
     (Seq [Scalar 0, Scalar (1::int)]) [1, 1] =
     Inr (Seq [Seq [Scalar 1, Scalar 2], Seq [Scalar 3, Scalar 4]], Seq [Scalar 0, Scalar 1]) \<and>
   concat_groups (Seq [Seq [Scalar 1, Scalar 2], Seq [Scalar 3, Scalar (4::int)]]) \<noteq>
     Some [Seq [Scalar 1, Scalar 2], Seq [Scalar 3, Scalar 4]] \<and>
   concat_groups (Seq [Scalar 0, Scalar (1::int)]) \<noteq> Some [Scalar 0, Scalar 1]"
  by (simp add: flat_pair_def inverse_flatten_def numpy_array_def demo_numpy_def
      shape_mismatch_def)

text \<open>
  C10. For equal-length sequences and non-negative group sizes with
  \<^verbatim>\<open>len(Z) < len(Y)\<close>, \<^verbatim>\<open>inverse_flatten\<close> returns without error one group per
  entry of \<open>Z\<close>, and the groups hold exactly the first \<^verbatim>\<open>min(sum(Z), len(Y))\<close>
  elements, in order; the elements after them are dropped.
\<close>

theorem inverse_flatten_total:
  assumes "length xs = length ys"
    and "list_all (\<lambda>z. 0 \<le> z) Z"
    and "length Z < length ys"
  shows "\<exists>gX gY.
           inverse_flatten (Seq xs) (Seq ys) Z = Inr (Seq gX, Seq gY) \<and>
           length gX = length Z \<and> length gY = length Z \<and>
           concat_groups (Seq gX) = Some (take (nat (min (sum_list Z) (int (length ys)))) xs) \<and>
           concat_groups (Seq gY) = Some (take (nat (min (sum_list Z) (int (length ys)))) ys)"
proof -
  have s: "0 \<le> sum_list Z"
    using assms(2) by (induction Z) simp_all
  have cx: "concat (chunks xs 0 Z) = take (nat (min (sum_list Z) (int (length ys)))) xs"
    using concat_chunks [of 0 Z xs] assms(1,2) slice_list_prefix [OF s, of xs] by simp
  have cy: "concat (chunks ys 0 Z) = take (nat (min (sum_list Z) (int (length ys)))) ys"
    using concat_chunks [of 0 Z ys] assms(2) slice_list_prefix [OF s, of ys] by simp
  have "inverse_flatten (Seq xs) (Seq ys) Z =
          Inr (Seq (map Seq (chunks xs 0 Z)), Seq (map Seq (chunks ys 0 Z)))"
    by (rule inverse_flatten_regroup [OF assms(3)])
  moreover have "concat_groups (Seq (map Seq (chunks xs 0 Z))) =
      Some (take (nat (min (sum_list Z) (int (length ys)))) xs)"
    by (simp only: concat_groups_map_Seq cx)
  moreover have "concat_groups (Seq (map Seq (chunks ys 0 Z))) =
      Some (take (nat (min (sum_list Z) (int (length ys)))) ys)"
    by (simp only: concat_groups_map_Seq cy)
  moreover have "length (map Seq (chunks xs 0 Z)) = length Z"
    "length (map Seq (chunks ys 0 Z)) = length Z"
    by (simp_all add: length_chunks)
  ultimately show ?thesis by blast
qed

text \<open>C10: group sizes \<^verbatim>\<open>[1, 1]\<close> on three elements drop the third.\<close>

theorem inverse_flatten_total_witness:
  "length [Scalar 1, Scalar 2, Scalar (3::int)] = length [Scalar 9, Scalar 8, Scalar (7::int)] \<and>
   list_all (\<lambda>z. 0 \<le> z) [1, 1::int] \<and>
   length [1, 1::int] < length [Scalar 9, Scalar 8, Scalar (7::int)] \<and>
   (\<exists>gX gY.
      inverse_flatten (Seq [Scalar 1, Scalar 2, Scalar (3::int)])
        (Seq [Scalar 9, Scalar 8, Scalar 7]) [1, 1] = Inr (Seq gX, Seq gY) \<and>
      length gX = length [1, 1::int] \<and> length gY = length [1, 1::int] \<and>
      concat_groups (Seq gX) = Some [Scalar 1, Scalar 2] \<and>
      concat_groups (Seq gY) = Some [Scalar 9, Scalar 8])"
proof -
  have h1: "length [Scalar 1, Scalar 2, Scalar (3::int)] = length [Scalar 9, Scalar 8, Scalar (7::int)]"
    by simp
  have h2: "list_all (\<lambda>z. 0 \<le> z) [1, 1::int]" by simp
  have h3: "length [1, 1::int] < length [Scalar 9, Scalar 8, Scalar (7::int)]" by simp
  have ex: "take (nat (min (sum_list [1, 1::int]) (int (length [Scalar 9, Scalar 8, Scalar (7::int)]))))
              [Scalar 1, Scalar 2, Scalar (3::int)] = [Scalar 1, Scalar 2]"
    by simp
  have ey: "take (nat (min (sum_list [1, 1::int]) (int (length [Scalar 9, Scalar 8, Scalar (7::int)]))))
              [Scalar 9, Scalar 8, Scalar (7::int)] = [Scalar 9, Scalar 8]"
    by simp
  from inverse_flatten_total [OF h1 h2 h3, unfolded ex ey] h1 h2 h3 show ?thesis by blast
qed

section \<open>Properties of the learner\<close>

text \<open>
  C6. On a learner whose \<^verbatim>\<open>_Y\<close> is \<^verbatim>\<open>None\<close>, \<^verbatim>\<open>predict\<close> raises the
  AssertionError saying that the model has not been fit, and leaves the run as it
  was: no method of the vectorizer or of the model is called.
\<close>

theorem predict_unfit:
  "self_Y (self s) = PyNone \<Longrightarrow>
   predict env X s =
     (Inl (AssertionError ''Model has not been fit! Cannot make predictions for new data.''), s) \<and>
   calls (snd (predict env X s)) = calls s"
  by (simp add: predict_def raise_error_def)

text \<open>C6 on a new learner.\<close>

theorem predict_unfit_witness:
  "self_Y (self demo_fresh) = PyNone \<and>
   predict demo_env demo_X demo_fresh =
     (Inl (AssertionError ''Model has not been fit! Cannot make predictions for new data.''),
      demo_fresh) \<and>
   calls (snd (predict demo_env demo_X demo_fresh)) = []"
proof -
  have h: "self_Y (self demo_fresh) = PyNone"
    by (simp add: demo_fresh_def learner_init_def)
  have c: "calls demo_fresh = []"
    by (simp add: demo_fresh_def)
  from predict_unfit [OF h, of demo_env demo_X] h c show ?thesis by simp
qed

text \<open>
  The last branch of \<^verbatim>\<open>load\<close> is reached only when other code has bound \<^verbatim>\<open>session\<close>
  in the module.
\<close>

lemma load_no_file_unbound:
  "\<not> path_exists fs filename \<Longrightarrow> session_models fs = None \<Longrightarrow>
   load fs filename = Inl NameError"
  by (simp add: load_def)

lemma load_no_file_bound:
  assumes "session_models fs = Some models"
    and "\<not> path_exists fs filename"
    and "\<not> path_exists fs (os_path_join models (filename @ ''.pkl''))"
    and "\<not> path_exists fs (os_path_join models (filename @ ''.yml''))"
  shows "load fs filename = Inl (AssertionError ''Cannot load model. Pickle file does not exist!'')"
  using assms by (simp add: load_def)

text \<open>
  C7. The claim asks for the AssertionError saying that the model cannot be loaded
  when no file exists under any lookup. In the module as it is, \<^verbatim>\<open>session\<close> is
  unbound: for a name that is no existing path, \<^verbatim>\<open>load\<close> raises NameError when it
  evaluates \<^verbatim>\<open>session.models\<close> for the second lookup and never reaches the
  AssertionError of its last branch.
\<close>

theorem load_session_unbound:
  "\<not> path_exists demo_storage_unbound ''svm'' \<and>
   session_models demo_storage_unbound = None \<and>
   load demo_storage_unbound ''svm'' = Inl NameError \<and>
   load demo_storage_unbound ''svm'' \<noteq>
     Inl (AssertionError ''Cannot load model. Pickle file does not exist!'')"
  by (simp add: load_def demo_storage_unbound_def demo_storage_def)

text \<open>
  C8. When the file name exists and \<^verbatim>\<open>joblib.load\<close> raises on it, \<^verbatim>\<open>load\<close> returns
  what \<^verbatim>\<open>from_config\<close> returns for that name (\<^verbatim>\<open>None\<close>); the error is not raised.
\<close>

theorem load_swallows_error:
  assumes "path_exists fs filename"
    and "joblib_load fs filename = Inl e"
  shows "load fs filename = from_config filename \<and> load fs filename = Inr None"
  using assms by (simp add: load_def from_config_def)

text \<open>C8 for a file that exists and does not unpickle.\<close>

theorem load_swallows_error_witness:
  "path_exists demo_storage ''broken.pkl'' \<and>
   joblib_load demo_storage ''broken.pkl'' = Inl (OtherError ''UnpicklingError'') \<and>
   load demo_storage ''broken.pkl'' = (from_config ''broken.pkl'' :: error + unit option) \<and>
   load demo_storage ''broken.pkl'' = Inr None"
proof -
  have h1: "path_exists demo_storage ''broken.pkl''"
    by (simp add: demo_storage_def)
  have h2: "joblib_load demo_storage ''broken.pkl'' = Inl (OtherError ''UnpicklingError'')"
    by (simp add: demo_storage_def)
  from load_swallows_error [OF h1 h2] h1 h2 show ?thesis by blast
qed

lemma predict_run:
  assumes fitted: "self_Y (self s) \<noteq> PyNone"
    and clone: "vec_clone env (self_vectorizer (self s)) = Inr obj"
    and ft: "vec_fit_transform env obj X (self_Y (self s)) (Some True) = (Inr (tX, tY), obj')"
    and fl: "flatten (numpy_module env) tX tY = Inr (Flat3 fX fY fZ)"
    and mp: "model_predict env (self_model (self s)) (Seq fX) = (Inr pY, m')"
    and inv: "inverse_flatten (Seq fX) pY fZ = Inr (gX, gY)"
  shows "calls (snd (predict env X s)) =
           calls s @ [VecClone, VecFitTransform X (self_Y (self s)) (Some True),
                      ModelPredict (Seq fX), VecInverseFitTransform gX pY]"
    and "fst (predict env X s) =
           (case fst (vec_inverse_fit_transform env obj' gX pY) of
              Inl e \<Rightarrow> Inl e | Inr (rX, rY) \<Rightarrow> Inr rY)"
  using assms
  by (simp_all add: predict_def and_then_def self_vec_clone_def obj_fit_transform_def
      pure_step_def self_model_predict_def obj_inverse_fit_transform_def return_val_def
      split: prod.splits sum.splits)

lemma fit_run:
  assumes ft: "vec_fit_transform env (self_vectorizer (self s)) X Y None = (Inr (tX, tY), v')"
    and fl: "flatten (numpy_module env) tX tY = Inr (Flat3 fX fY fZ)"
    and mf: "model_fit env (self_model (self s)) (Seq fX) (Seq fY) = (Inr (), m')"
  shows "fit env X Y s =
           (Inr (),
            \<lparr>self = \<lparr>self_vectorizer = v', self_model = m',
                     self_X = Seq fX, self_Y = Seq fY, self_Z = Some fZ\<rparr>,
             calls = calls s @ [VecFitTransform X Y None, ModelFit (Seq fX) (Seq fY)]\<rparr>)"
  using assms
  by (simp add: fit_def and_then_def self_vec_fit_transform_def pure_step_def assign_XYZ_def
      self_model_fit_def return_val_def)

lemma fit_predict_run:
  assumes ft: "vec_fit_transform env (self_vectorizer (self s)) X Y None = (Inr (tX, tY), v')"
    and fl: "flatten (numpy_module env) tX tY = Inr (Flat3 fX fY fZ)"
    and mf: "model_fit env (self_model (self s)) (Seq fX) (Seq fY) = (Inr (), m')"
    and mp: "model_predict env m' (Seq fX) = (Inr pY, m'')"
    and inv: "inverse_flatten (Seq fX) pY fZ = Inr (gX, gY)"
  shows "calls (snd (fit_predict env X Y s)) =
           calls s @ [VecFitTransform X Y None, ModelFit (Seq fX) (Seq fY),
                      ModelPredict (Seq fX), VecInverseFitTransform gX gY]"
    and "fst (fit_predict env X Y s) =
           (case fst (vec_inverse_fit_transform env v' gX gY) of
              Inl e \<Rightarrow> Inl e | Inr (rX, rY) \<Rightarrow> Inr rY)"
  using mp inv
  by (simp_all add: fit_predict_def fit_run [OF ft fl mf]
      and_then_def self_model_predict_def pure_step_def inverse_flatten_attr_def
      self_vec_inverse_fit_transform_def return_val_def
      split: prod.splits sum.splits)

text \<open>
  C9. When every step succeeds, the last call of \<^verbatim>\<open>predict\<close> is the inverse
  transform of the clone on the regrouped predictors and the flat predictions \<open>pY\<close>
  of the model: the regrouped responses \<open>gY\<close> of \<^verbatim>\<open>inverse_flatten\<close> are not used.
  The last call of \<^verbatim>\<open>fit_predict\<close> is the inverse transform on the regrouped
  predictors and the regrouped responses.
\<close>

theorem predict_passes_flat_predictions:
  assumes "self_Y (self s) \<noteq> PyNone"
    and "vec_clone env (self_vectorizer (self s)) = Inr obj"
    and "vec_fit_transform env obj X (self_Y (self s)) (Some True) = (Inr (tX, tY), obj')"
    and "flatten (numpy_module env) tX tY = Inr (Flat3 fX fY fZ)"
    and "model_predict env (self_model (self s)) (Seq fX) = (Inr pY, m')"
    and "inverse_flatten (Seq fX) pY fZ = Inr (gX, gY)"
    and "vec_fit_transform env (self_vectorizer (self s2)) X2 Y2 None = (Inr (tX2, tY2), v2)"
    and "flatten (numpy_module env) tX2 tY2 = Inr (Flat3 fX2 fY2 fZ2)"
    and "model_fit env (self_model (self s2)) (Seq fX2) (Seq fY2) = (Inr (), m2)"
    and "model_predict env m2 (Seq fX2) = (Inr pY2, m2')"
    and "inverse_flatten (Seq fX2) pY2 fZ2 = Inr (gX2, gY2)"
  shows "calls (snd (predict env X s)) =
           calls s @ [VecClone, VecFitTransform X (self_Y (self s)) (Some True),
                      ModelPredict (Seq fX), VecInverseFitTransform gX pY] \<and>
         fst (predict env X s) =
           (case fst (vec_inverse_fit_transform env obj' gX pY) of
              Inl e \<Rightarrow> Inl e | Inr (rX, rY) \<Rightarrow> Inr rY) \<and>
         calls (snd (fit_predict env X2 Y2 s2)) =
           calls s2 @ [VecFitTransform X2 Y2 None, ModelFit (Seq fX2) (Seq fY2),
                       ModelPredict (Seq fX2), VecInverseFitTransform gX2 gY2] \<and>
         fst (fit_predict env X2 Y2 s2) =
           (case fst (vec_inverse_fit_transform env v2 gX2 gY2) of
              Inl e \<Rightarrow> Inl e | Inr (rX, rY) \<Rightarrow> Inr rY)"
  using predict_run [OF assms(1-6)] fit_predict_run [OF assms(7-11)] by blast

text \<open>
  C9 on the concrete learner: \<^verbatim>\<open>predict\<close> hands \<^verbatim>\<open>[9, 8, 7]\<close> to the inverse
  transform, \<^verbatim>\<open>fit_predict\<close> hands it \<^verbatim>\<open>[[9, 8], [7]]\<close>.
\<close>

theorem predict_passes_flat_predictions_witness:
  "self_Y (self demo_fitted) \<noteq> PyNone \<and>
   vec_clone demo_env (self_vectorizer (self demo_fitted)) = Inr () \<and>
   vec_fit_transform demo_env () demo_X (self_Y (self demo_fitted)) (Some True) =
     (Inr (demo_X, demo_Y), ()) \<and>
   flatten (numpy_module demo_env) demo_X demo_Y =
     Inr (Flat3 [Seq [Scalar 1], Seq [Scalar 2], Seq [Scalar 3]]
            [Scalar 0, Scalar 1, Scalar 1] [2, 1]) \<and>
   model_predict demo_env () (Seq [Seq [Scalar 1], Seq [Scalar 2], Seq [Scalar 3]]) =
     (Inr (Seq [Scalar 9, Scalar 8, Scalar 7]), ()) \<and>
   inverse_flatten (Seq [Seq [Scalar 1], Seq [Scalar 2], Seq [Scalar 3]])
     (Seq [Scalar 9, Scalar 8, Scalar 7]) [2, 1] =
     Inr (demo_X, Seq [Seq [Scalar 9, Scalar 8], Seq [Scalar 7]]) \<and>
   vec_fit_transform demo_env (self_vectorizer (self demo_fresh)) demo_X demo_Y None =
     (Inr (demo_X, demo_Y), ()) \<and>
   model_fit demo_env (self_model (self demo_fresh))
     (Seq [Seq [Scalar 1], Seq [Scalar 2], Seq [Scalar 3]])
     (Seq [Scalar 0, Scalar 1, Scalar 1]) = (Inr (), ()) \<and>
   calls (snd (predict demo_env demo_X demo_fitted)) =
     [VecClone, VecFitTransform demo_X (Seq [Scalar 0, Scalar 1, Scalar 1]) (Some True),
      ModelPredict (Seq [Seq [Scalar 1], Seq [Scalar 2], Seq [Scalar 3]]),
      VecInverseFitTransform demo_X (Seq [Scalar 9, Scalar 8, Scalar 7])] \<and>
   fst (predict demo_env demo_X demo_fitted) = Inr (Seq [Scalar 9, Scalar 8, Scalar 7]) \<and>
   calls (snd (fit_predict demo_env demo_X demo_Y demo_fresh)) =
     [VecFitTransform demo_X demo_Y None,
      ModelFit (Seq [Seq [Scalar 1], Seq [Scalar 2], Seq [Scalar 3]])
        (Seq [Scalar 0, Scalar 1, Scalar 1]),
      ModelPredict (Seq [Seq [Scalar 1], Seq [Scalar 2], Seq [Scalar 3]]),
      VecInverseFitTransform demo_X (Seq [Seq [Scalar 9, Scalar 8], Seq [Scalar 7]])] \<and>
   fst (fit_predict demo_env demo_X demo_Y demo_fresh) =
     Inr (Seq [Seq [Scalar 9, Scalar 8], Seq [Scalar 7]])"
proof -
  have h1: "self_Y (self demo_fitted) \<noteq> PyNone"
    by (simp add: demo_fitted_def)
  have h2: "vec_clone demo_env (self_vectorizer (self demo_fitted)) = Inr ()"
    by (simp add: demo_env_def)
  have h3: "vec_fit_transform demo_env () demo_X (self_Y (self demo_fitted)) (Some True) =
      (Inr (demo_X, demo_Y), ())"
    by (simp add: demo_env_def)
  have h4: "flatten (numpy_module demo_env) demo_X demo_Y =
      Inr (Flat3 [Seq [Scalar 1], Seq [Scalar 2], Seq [Scalar 3]]
             [Scalar 0, Scalar 1, Scalar 1] [2, 1])"
    by (simp add: demo_env_def demo_X_def demo_Y_def numpy_array_def demo_numpy_def
        shape_mismatch_def)
  have h5: "model_predict demo_env (self_model (self demo_fitted))
      (Seq [Seq [Scalar 1], Seq [Scalar 2], Seq [Scalar 3]]) =
      (Inr (Seq [Scalar 9, Scalar 8, Scalar 7]), ())"
    by (simp add: demo_env_def)
  have h6: "inverse_flatten (Seq [Seq [Scalar 1], Seq [Scalar 2], Seq [Scalar 3]])
      (Seq [Scalar 9, Scalar 8, Scalar 7]) [2, 1] =
      Inr (demo_X, Seq [Seq [Scalar 9, Scalar 8], Seq [Scalar 7]])"
    by (simp add: demo_X_def inverse_flatten_def slice_list_def slice_bound_def)
  have h7: "vec_fit_transform demo_env (self_vectorizer (self demo_fresh)) demo_X demo_Y None =
      (Inr (demo_X, demo_Y), ())"
    by (simp add: demo_env_def)
  have h9: "model_fit demo_env (self_model (self demo_fresh))
      (Seq [Seq [Scalar 1], Seq [Scalar 2], Seq [Scalar 3]])
      (Seq [Scalar 0, Scalar 1, Scalar 1]) = (Inr (), ())"
    by (simp add: demo_env_def)
  have h10: "model_predict demo_env ()
      (Seq [Seq [Scalar 1], Seq [Scalar 2], Seq [Scalar 3]]) =
      (Inr (Seq [Scalar 9, Scalar 8, Scalar 7]), ())"
    by (simp add: demo_env_def)
  have c1: "calls demo_fitted = []" and c2: "calls demo_fresh = []"
    and y: "self_Y (self demo_fitted) = Seq [Scalar 0, Scalar 1, Scalar 1]"
    by (simp_all add: demo_fitted_def demo_fresh_def)
  have i1: "fst (vec_inverse_fit_transform demo_env () demo_X
                   (Seq [Scalar 9, Scalar 8, Scalar 7])) =
              Inr (demo_X, Seq [Scalar 9, Scalar 8, Scalar 7])"
    and i2: "fst (vec_inverse_fit_transform demo_env () demo_X
                   (Seq [Seq [Scalar 9, Scalar 8], Seq [Scalar 7]])) =
              Inr (demo_X, Seq [Seq [Scalar 9, Scalar 8], Seq [Scalar 7]])"
    by (simp_all add: demo_env_def)
  from predict_passes_flat_predictions [OF h1 h2 h3 h4 h5 h6 h7 h4 h9 h10 h6]
  have "calls (snd (predict demo_env demo_X demo_fitted)) =
     [VecClone, VecFitTransform demo_X (Seq [Scalar 0, Scalar 1, Scalar 1]) (Some True),
      ModelPredict (Seq [Seq [Scalar 1], Seq [Scalar 2], Seq [Scalar 3]]),
      VecInverseFitTransform demo_X (Seq [Scalar 9, Scalar 8, Scalar 7])] \<and>
   fst (predict demo_env demo_X demo_fitted) = Inr (Seq [Scalar 9, Scalar 8, Scalar 7]) \<and>
   calls (snd (fit_predict demo_env demo_X demo_Y demo_fresh)) =
     [VecFitTransform demo_X demo_Y None,
      ModelFit (Seq [Seq [Scalar 1], Seq [Scalar 2], Seq [Scalar 3]])
        (Seq [Scalar 0, Scalar 1, Scalar 1]),
      ModelPredict (Seq [Seq [Scalar 1], Seq [Scalar 2], Seq [Scalar 3]]),
      VecInverseFitTransform demo_X (Seq [Seq [Scalar 9, Scalar 8], Seq [Scalar 7]])] \<and>
   fst (fit_predict demo_env demo_X demo_Y demo_fresh) =
     Inr (Seq [Seq [Scalar 9, Scalar 8], Seq [Scalar 7]])"
    by (simp add: c1 c2 y i1 i2)
  with h1 h2 h3 h4 h10 h6 h7 h9 show ?thesis by blast
qed

end
